theory Spec2Isabelle
  imports Complex_Main
begin

section \<open>Identifiers, dynamic values and documents\<close>

text \<open>
  A \<open>primitive.ObjectID\<close> is twelve bytes; it is modelled by the number those bytes
  denote (big endian), the zero value \<open>NilObjectID\<close> by \<open>0\<close>.
  \<open>ObjectIDFromHex\<close> accepts exactly the strings of 24 hexadecimal digits, in either case.
\<close>

type_synonym ObjectID = nat

definition NilObjectID :: ObjectID where
  "NilObjectID = 0"

definition hexDigit :: "char \<Rightarrow> nat option" where
  "hexDigit c =
     (if 48 \<le> (of_char c :: nat) \<and> (of_char c :: nat) \<le> 57 then Some (of_char c - 48)
      else if 97 \<le> (of_char c :: nat) \<and> (of_char c :: nat) \<le> 102 then Some (of_char c - 87)
      else if 65 \<le> (of_char c :: nat) \<and> (of_char c :: nat) \<le> 70 then Some (of_char c - 55)
      else None)"

fun hexDecode :: "string \<Rightarrow> nat \<Rightarrow> nat option" where
  "hexDecode [] acc = Some acc"
| "hexDecode (c # cs) acc =
     (case hexDigit c of None \<Rightarrow> None | Some d \<Rightarrow> hexDecode cs (16 * acc + d))"

definition ObjectIDFromHex :: "string \<Rightarrow> ObjectID option" where
  "ObjectIDFromHex s = (if length s \<noteq> 24 then None else hexDecode s 0)"

text \<open>
  The values a Go \<open>interface{}\<close> holds in this program: what \<open>encoding/json\<close> decodes
  into it (nil, bool, float64, string, slice, map) and the two typed values the handlers
  put into an update document (\<open>time.Time\<close>, \<open>primitive.ObjectID\<close>). The same values are
  what a stored document holds. The type \<open>'f\<close> stands for \<open>float64\<close>: the program only
  multiplies such numbers and writes the literal \<open>100.0\<close>, so every result below holds for
  any number type with a product and numerals, whatever its rounding. A timestamp is an
  integer count of the store's time unit.
\<close>

datatype 'f val =
    VNil
  | VBool bool
  | VNum 'f
  | VStr string
  | VArr "'f val list"
  | VObj "(string \<times> 'f val) list"
  | VTime int
  | VOid ObjectID

text \<open>A \<open>bson.M\<close> and a stored document: a finite map from field names to values.\<close>

type_synonym 'f doc = "string \<rightharpoonup> 'f val"

record 'f Task =
  ID :: ObjectID
  Title :: string
  Description :: string
  AssignedTo :: ObjectID
  Status :: string
  Hours :: 'f
  StartDate :: int
  EndDate :: int
  InvoiceID :: ObjectID
  ParentTask :: "ObjectID option"

text \<open>
  The struct \<open>Billing\<close>. Its fields \<open>ID\<close> and \<open>Hours\<close> are written \<open>BillingID\<close> and
  \<open>BillingHours\<close>, since \<open>Task\<close> has fields of the same names.
\<close>

record 'f Billing =
  BillingID :: ObjectID
  UserID :: ObjectID
  TaskID :: ObjectID
  BillingHours :: 'f
  Amount :: 'f

text \<open>
  What the driver writes for a \<open>Task\<close> struct, after its \<open>bson\<close> tags: \<open>invoice_id\<close> and
  \<open>parent_task\<close> are \<open>omitempty\<close>, so the zero identifier and the nil pointer leave no field.
\<close>

definition marshalTask :: "'f Task \<Rightarrow> 'f doc" where
  "marshalTask t =
     (([''_id'' \<mapsto> VOid (ID t),
        ''title'' \<mapsto> VStr (Title t),
        ''description'' \<mapsto> VStr (Description t),
        ''assigned_to'' \<mapsto> VOid (AssignedTo t),
        ''status'' \<mapsto> VStr (Status t),
        ''hours'' \<mapsto> VNum (Hours t),
        ''start_date'' \<mapsto> VTime (StartDate t),
        ''end_date'' \<mapsto> VTime (EndDate t)]
       ++ (if InvoiceID t = NilObjectID then Map.empty
           else [''invoice_id'' \<mapsto> VOid (InvoiceID t)]))
       ++ (case ParentTask t of None \<Rightarrow> Map.empty
           | Some p \<Rightarrow> [''parent_task'' \<mapsto> VOid p]))"

section \<open>The world: the two stores, the calls made, and the environment\<close>

text \<open>
  The calls a handler makes to its collaborators, in order: an operation on the task
  collection (by the driver method's name), the POST of a billing record to the gateway,
  the GET of a user from the user service.
\<close>

datatype 'f call =
    TaskStore string
  | BillingPost "'f Billing"
  | UserGet string

record 'f world =
  tasks :: "'f doc list"
  billings :: "'f Billing list"
  calls :: "'f call list"

text \<open>
  How the gateway at \<open>api-gateway:8000\<close> treats the POST: the connection fails
  (\<open>client.Do\<close> returns an error); something on the way answers by itself with a status
  code and a body (\<open>None\<close>: a body that does not decode into a \<open>Billing\<close>); or the request
  reaches the billing service's create handler, whose reply comes back.
\<close>

datatype 'f link = Down | Answer nat "'f Billing option" | Forward

text \<open>
  The user service's reply to \<open>http.Get\<close>: an error, or a status code and the decoded
  \<open>role\<close> field (\<open>None\<close>: the body does not decode).
\<close>

datatype user_reply = UserDown | UserReply nat "string option"

text \<open>
  Everything a request's outcome depends on besides the request and the world:
  the library functions (\<open>time.Parse\<close> with the layout \<open>time.RFC3339\<close>, the driver's
  decoding of a document into a \<open>Task\<close>, whether \<open>json.Marshal\<close> accepts a billing record),
  the identifier \<open>primitive.NewObjectID\<close> returns during the request, which driver
  operations return an error (by the method's name; an operation that returns an error
  has left the collection as it was), and the behaviour of the two remote services.
\<close>

record 'f env =
  parseRFC3339 :: "string \<Rightarrow> int option"
  decodeTask :: "'f doc \<Rightarrow> 'f Task option"
  marshalOK :: "'f Billing \<Rightarrow> bool"
  newObjectID :: ObjectID
  storeErr :: "string \<Rightarrow> bool"
  gateway :: "'f link"
  billingStoreErr :: bool
  userService :: "string \<Rightarrow> user_reply"

text \<open>
  A request: method, path, the \<open>User-ID\<close> header and the \<open>user_id\<close> query parameter
  (empty when absent), and the body as \<open>json.NewDecoder(req.Body).Decode\<close> yields it for
  the two target types the handlers use (\<open>None\<close>: the decoder returns an error). The map
  is listed in the order the \<open>range\<close> loop visits it; a Go map holds each key once.
\<close>

record 'f request =
  Method :: string
  Path :: string
  headerUserID :: string
  queryUserID :: string
  bodyTask :: "'f Task option"
  bodyMap :: "(string \<times> 'f val) list option"

datatype 'f response =
    HttpError string nat
  | NoContent
  | Empty200
  | JsonTask "'f Task"
  | JsonTasks "'f Task list"
  | JsonTaskSubtasks "'f Task" "'f Task list"

type_synonym 'f handler = "'f request \<Rightarrow> 'f world \<Rightarrow> 'f response \<times> 'f world"

definition called :: "'f call \<Rightarrow> 'f world \<Rightarrow> 'f world" where
  "called c w = w\<lparr>calls := calls w @ [c]\<rparr>"

text \<open>The billing records posted so far, read off the calls.\<close>

fun posts :: "'f call list \<Rightarrow> 'f Billing list" where
  "posts [] = []"
| "posts (BillingPost b # cs) = b # posts cs"
| "posts (c # cs) = posts cs"

section \<open>The task collection\<close>

definition hasID :: "ObjectID \<Rightarrow> 'f doc \<Rightarrow> bool" where
  "hasID oid d = (d ''_id'' = Some (VOid oid))"

text \<open>
  \<open>cursor.All\<close> decodes every document of the result, and assigns the slice only when
  all of them decode.
\<close>

fun cursorAll :: "('f doc \<Rightarrow> 'f Task option) \<Rightarrow> 'f doc list \<Rightarrow> 'f Task list option" where
  "cursorAll dec [] = Some []"
| "cursorAll dec (d # ds) =
     (case dec d of None \<Rightarrow> None
      | Some t \<Rightarrow> (case cursorAll dec ds of None \<Rightarrow> None | Some ts \<Rightarrow> Some (t # ts)))"

text \<open>\<open>FindOne(_id = oid).Decode(&task)\<close>: the first such document, decoded.\<close>

definition findOne :: "'f env \<Rightarrow> ObjectID \<Rightarrow> 'f world \<Rightarrow> 'f Task option" where
  "findOne env oid w =
     (if storeErr env ''FindOne'' then None
      else (case find (hasID oid) (tasks w) of None \<Rightarrow> None
            | Some d \<Rightarrow> decodeTask env d))"

text \<open>\<open>UpdateOne(_id = oid, {$set: s})\<close>: the first such document takes the fields of \<open>s\<close>.\<close>

fun setFirst :: "ObjectID \<Rightarrow> 'f doc \<Rightarrow> 'f doc list \<Rightarrow> 'f doc list" where
  "setFirst oid s [] = []"
| "setFirst oid s (d # ds) = (if hasID oid d then (d ++ s) # ds else d # setFirst oid s ds)"

text \<open>\<open>DeleteOne(_id = oid)\<close>: the first such document goes.\<close>

fun deleteFirst :: "ObjectID \<Rightarrow> 'f doc list \<Rightarrow> 'f doc list" where
  "deleteFirst oid [] = []"
| "deleteFirst oid (d # ds) = (if hasID oid d then ds else d # deleteFirst oid ds)"

section \<open>The billing service's create handler\<close>

text \<open>
  \<open>createBilling\<close> of the billing service, as the task service sees it: the status code of
  the reply and its body decoded into a \<open>Billing\<close> (the error replies of \<open>http.Error\<close> carry
  plain text, which does not decode).
\<close>

definition createBilling ::
  "'f env \<Rightarrow> string \<Rightarrow> 'f Billing option \<Rightarrow> 'f world \<Rightarrow> (nat \<times> 'f Billing option) \<times> 'f world" where
  "createBilling env meth body w =
     (if meth \<noteq> ''POST'' then ((405, None), w)
      else (case body of
              None \<Rightarrow> ((400, None), w)
            | Some billing \<Rightarrow>
                (if billingStoreErr env then ((500, None), w)
                 else ((200, Some (billing\<lparr>BillingID := newObjectID env\<rparr>)),
                       w\<lparr>billings := billings w @ [billing\<lparr>BillingID := newObjectID env\<rparr>]\<rparr>))))"

section \<open>The task service\<close>

subsection \<open>Invoice issuance\<close>

datatype invoice_error = MarshalFailed | SendFailed | BadStatus nat | DecodeFailed

definition hourlyRate :: "'f::numeral" where
  "hourlyRate = 100"

text \<open>
  \<open>client.Do(req)\<close> on the POST to the gateway: \<open>None\<close> is the error return, otherwise the
  status code and the decoded body of the response.
\<close>

definition postBilling ::
  "'f env \<Rightarrow> 'f Billing \<Rightarrow> 'f world \<Rightarrow> (nat \<times> 'f Billing option) option \<times> 'f world" where
  "postBilling env billing w =
     (case gateway env of
        Down \<Rightarrow> (None, called (BillingPost billing) w)
      | Answer code body \<Rightarrow> (Some (code, body), called (BillingPost billing) w)
      | Forward \<Rightarrow>
          (case createBilling env ''POST'' (Some billing) (called (BillingPost billing) w) of
             (r, w') \<Rightarrow> (Some r, w')))"

text \<open>
  The function itself. \<open>http.NewRequest\<close> is called with a constant method and a
  constant, well-formed URL, so its error branch is never taken and is left out.
\<close>

definition createInvoiceInBillingService ::
  "('f::{times,numeral}) env \<Rightarrow> 'f Task \<Rightarrow> 'f world \<Rightarrow> (invoice_error + ObjectID) \<times> 'f world" where
  "createInvoiceInBillingService env task w =
     (let amount = Hours task * hourlyRate;
          billing = \<lparr>BillingID = NilObjectID, UserID = AssignedTo task, TaskID = ID task,
                     BillingHours = Hours task, Amount = amount\<rparr>
      in if \<not> marshalOK env billing then (Inl MarshalFailed, w)
         else (case postBilling env billing w of
                 (None, w') \<Rightarrow> (Inl SendFailed, w')
               | (Some (code, body), w') \<Rightarrow>
                   (if code \<noteq> 200 then (Inl (BadStatus code), w')
                    else (case body of
                            None \<Rightarrow> (Inl DecodeFailed, w')
                          | Some createdBilling \<Rightarrow> (Inr (BillingID createdBilling), w')))))"

subsection \<open>Creating a task\<close>

text \<open>The filter of the overlap query, as the store evaluates it on a document.\<close>

definition overlapFilter :: "'f Task \<Rightarrow> 'f doc \<Rightarrow> bool" where
  "overlapFilter task d =
     (d ''assigned_to'' = Some (VOid (AssignedTo task))
      \<and> (case d ''end_date'' of Some (VTime e) \<Rightarrow> e > StartDate task | _ \<Rightarrow> False)
      \<and> (case d ''start_date'' of Some (VTime s) \<Rightarrow> s < EndDate task | _ \<Rightarrow> False))"

definition overlapWarning :: string where
  "overlapWarning = '' Warning: This task overlaps with existing task(s).''"

text \<open>
  The slice \<open>overlappingTasks\<close> after \<open>cursor.All\<close>, whose error the handler drops: the
  decoded result, or still empty.
\<close>

definition overlappingTasks :: "'f env \<Rightarrow> 'f Task \<Rightarrow> 'f world \<Rightarrow> 'f Task list" where
  "overlappingTasks env task w =
     (case cursorAll (decodeTask env) (filter (overlapFilter task) (tasks w)) of
        None \<Rightarrow> []
      | Some ts \<Rightarrow> ts)"

definition createTask :: "'f env \<Rightarrow> 'f handler" where
  "createTask env req w =
     (case bodyTask req of
        None \<Rightarrow> (HttpError ''Invalid request body'' 400, w)
      | Some task \<Rightarrow>
          (if storeErr env ''Find''
           then (HttpError ''Database query error'' 500, called (TaskStore ''Find'') w)
           else
             (let task1 = (if length (overlappingTasks env task w) > 0
                           then task\<lparr>Description := Description task @ overlapWarning\<rparr>
                           else task);
                  task2 = task1\<lparr>ID := newObjectID env\<rparr>;
                  w2 = called (TaskStore ''InsertOne'') (called (TaskStore ''Find'') w)
              in if storeErr env ''InsertOne''
                 then (HttpError ''Failed to create task'' 500, w2)
                 else (JsonTask task2, w2\<lparr>tasks := tasks w2 @ [marshalTask task2]\<rparr>))))"

subsection \<open>Updating a task\<close>

text \<open>One round of the loop over the decoded patch: the \<open>switch\<close> on the key.\<close>

definition updateField ::
  "'f env \<Rightarrow> string \<times> 'f val \<Rightarrow> 'f doc \<Rightarrow> 'f response + 'f doc" where
  "updateField env kv d =
     (if fst kv \<in> {''title'', ''description'', ''assigned_to'', ''status'', ''hours''}
      then Inr (d(fst kv \<mapsto> snd kv))
      else if fst kv \<in> {''start_date'', ''end_date''}
      then (case snd kv of
              VStr dateString \<Rightarrow>
                (case parseRFC3339 env dateString of
                   None \<Rightarrow> Inl (HttpError ''Invalid date format'' 400)
                 | Some parsedDate \<Rightarrow> Inr (d(fst kv \<mapsto> VTime parsedDate)))
            | _ \<Rightarrow> Inr d)
      else if fst kv = ''parent_task''
      then (case snd kv of
              VStr parentTaskIDString \<Rightarrow>
                (case ObjectIDFromHex parentTaskIDString of
                   None \<Rightarrow> Inl (HttpError ''Invalid parent task ID'' 400)
                 | Some parentTaskID \<Rightarrow> Inr (d(''parent_task'' \<mapsto> VOid parentTaskID)))
            | _ \<Rightarrow> Inr d)
      else Inr d)"

text \<open>The loop: it returns from the handler at the first entry that fails.\<close>

fun updateDoc :: "'f env \<Rightarrow> (string \<times> 'f val) list \<Rightarrow> 'f doc \<Rightarrow> 'f response + 'f doc" where
  "updateDoc env [] d = Inr d"
| "updateDoc env (kv # rest) d =
     (case updateField env kv d of
        Inl e \<Rightarrow> Inl e
      | Inr d' \<Rightarrow> updateDoc env rest d')"

text \<open>The last step of the handler: \<open>UpdateOne\<close> with the \<open>$set\<close> document, and the reply.\<close>

definition updateOne :: "'f env \<Rightarrow> ObjectID \<Rightarrow> 'f doc \<Rightarrow> 'f world \<Rightarrow> 'f response \<times> 'f world" where
  "updateOne env objectID s w =
     (if storeErr env ''UpdateOne''
      then (HttpError ''Failed to update task'' 500, called (TaskStore ''UpdateOne'') w)
      else (NoContent,
            (called (TaskStore ''UpdateOne'') w)\<lparr>tasks := setFirst objectID s (tasks w)\<rparr>))"

definition updateTask :: "('f::{times,numeral}) env \<Rightarrow> 'f handler" where
  "updateTask env req w =
     (if Method req \<noteq> ''PUT'' then (HttpError ''Method not allowed'' 405, w)
      else
        (case ObjectIDFromHex (drop (length ''/tasks/update/'') (Path req)) of
           None \<Rightarrow> (HttpError ''Invalid task ID'' 400, w)
         | Some objectID \<Rightarrow>
             (case bodyMap req of
                None \<Rightarrow> (HttpError ''Invalid request body'' 400, w)
              | Some updates \<Rightarrow>
                  (case updateDoc env updates Map.empty of
                     Inl e \<Rightarrow> (e, w)
                   | Inr setDoc \<Rightarrow>
                       (case findOne env objectID w of
                          None \<Rightarrow> (HttpError ''Task not found'' 404, called (TaskStore ''FindOne'') w)
                        | Some currentTask \<Rightarrow>
                            (if Status currentTask \<noteq> ''done''
                                \<and> map_of updates ''status'' = Some (VStr ''done'')
                             then
                               (case createInvoiceInBillingService env currentTask
                                       (called (TaskStore ''FindOne'') w) of
                                  (Inl err, w') \<Rightarrow> (HttpError ''Failed to create invoice'' 500, w')
                                | (Inr invoiceID, w') \<Rightarrow>
                                    updateOne env objectID
                                      (setDoc(''invoice_id'' \<mapsto> VOid invoiceID)) w')
                             else updateOne env objectID setDoc
                                    (called (TaskStore ''FindOne'') w)))))))"

subsection \<open>Reading and removing tasks\<close>

definition getTask :: "'f env \<Rightarrow> 'f handler" where
  "getTask env req w =
     (case ObjectIDFromHex (drop (length ''/tasks/get/'') (Path req)) of
        None \<Rightarrow> (HttpError ''Invalid task ID'' 400, w)
      | Some objectID \<Rightarrow>
          (case findOne env objectID w of
             None \<Rightarrow> (HttpError ''Task not found'' 404, called (TaskStore ''FindOne'') w)
           | Some task \<Rightarrow>
               (JsonTaskSubtasks task
                  (if storeErr env ''Find'' then []
                   else (case cursorAll (decodeTask env)
                                 (filter (\<lambda>d. d ''parent_task'' = Some (VOid objectID)) (tasks w)) of
                           None \<Rightarrow> []
                         | Some subtasks \<Rightarrow> subtasks)),
                called (TaskStore ''Find'') (called (TaskStore ''FindOne'') w))))"

definition removeTask :: "'f env \<Rightarrow> 'f handler" where
  "removeTask env req w =
     (if Method req \<noteq> ''DELETE'' then (HttpError ''Method not allowed'' 405, w)
      else
        (case ObjectIDFromHex (drop (length ''/tasks/remove/'') (Path req)) of
           None \<Rightarrow> (HttpError ''Invalid task ID'' 400, w)
         | Some objectID \<Rightarrow>
             (if storeErr env ''DeleteOne''
              then (HttpError ''Failed to remove task'' 500, called (TaskStore ''DeleteOne'') w)
              else (NoContent,
                    (called (TaskStore ''DeleteOne'') w)\<lparr>tasks := deleteFirst objectID (tasks w)\<rparr>))))"

definition listTasks :: "'f env \<Rightarrow> 'f handler" where
  "listTasks env req w =
     (if Method req \<noteq> ''GET'' then (HttpError ''Method not allowed'' 405, w)
      else if storeErr env ''Find''
      then (HttpError ''Failed to list tasks'' 500, called (TaskStore ''Find'') w)
      else (case cursorAll (decodeTask env) (tasks w) of
              None \<Rightarrow> (HttpError ''Failed to decode tasks'' 500, called (TaskStore ''Find'') w)
            | Some ts \<Rightarrow> (JsonTasks ts, called (TaskStore ''Find'') w)))"

definition listTasksByUser :: "'f env \<Rightarrow> 'f handler" where
  "listTasksByUser env req w =
     (case ObjectIDFromHex (drop (length ''/tasks/listByUser/'') (Path req)) of
        None \<Rightarrow> (HttpError ''Invalid user ID'' 400, w)
      | Some objectID \<Rightarrow>
          (if storeErr env ''Find''
           then (HttpError ''Failed to list tasks'' 500, called (TaskStore ''Find'') w)
           else (case cursorAll (decodeTask env)
                        (filter (\<lambda>d. d ''assigned_to'' = Some (VOid objectID)) (tasks w)) of
                   None \<Rightarrow> (HttpError ''Failed to decode tasks'' 500, called (TaskStore ''Find'') w)
                 | Some ts \<Rightarrow> (JsonTasks ts, called (TaskStore ''Find'') w))))"

definition removeAllTasks :: "'f env \<Rightarrow> 'f handler" where
  "removeAllTasks env req w =
     (if Method req \<noteq> ''DELETE'' then (HttpError ''Method not allowed'' 405, w)
      else if storeErr env ''DeleteMany''
      then (HttpError ''Failed to remove all tasks'' 500, called (TaskStore ''DeleteMany'') w)
      else (Empty200, (called (TaskStore ''DeleteMany'') w)\<lparr>tasks := []\<rparr>))"

subsection \<open>The authorization gate and the routes\<close>

definition isAdmin :: "'f env \<Rightarrow> 'f request \<Rightarrow> 'f world \<Rightarrow> bool \<times> 'f world" where
  "isAdmin env req w =
     (let userID = (if headerUserID req = [] then queryUserID req else headerUserID req)
      in (case userService env userID of
            UserDown \<Rightarrow> False
          | UserReply code role \<Rightarrow>
              (if code \<noteq> 200 then False
               else (case role of None \<Rightarrow> False | Some r \<Rightarrow> r = ''admin'')),
          called (UserGet userID) w))"

definition adminMiddleware :: "'f env \<Rightarrow> 'f handler \<Rightarrow> 'f handler" where
  "adminMiddleware env next req w =
     (case isAdmin env req w of
        (ok, w') \<Rightarrow> (if \<not> ok then (HttpError ''Unauthorized'' 401, w') else next req w'))"

text \<open>
  The routes \<open>main\<close> registers on the mux. A pattern ending in a slash matches every path
  it is a prefix of; the others match one path. The task service's \<open>authMiddleware\<close> is
  not part of the sources at hand: it is a parameter.
\<close>

definition underPath :: "string \<Rightarrow> string \<Rightarrow> bool" where
  "underPath pat p = (take (length pat) p = pat)"

definition serve ::
  "('f handler \<Rightarrow> 'f handler) \<Rightarrow> ('f::{times,numeral}) env \<Rightarrow> 'f handler" where
  "serve authMiddleware env req w =
     (if Path req = ''/tasks/list'' then listTasks env req w
      else if Path req = ''/tasks/create'' then createTask env req w
      else if Path req = ''/tasks/removeAllTasks'' then removeAllTasks env req w
      else if underPath ''/tasks/get/'' (Path req) then getTask env req w
      else if underPath ''/tasks/update/'' (Path req) then updateTask env req w
      else if underPath ''/tasks/remove/'' (Path req)
      then authMiddleware (adminMiddleware env (removeTask env)) req w
      else if underPath ''/tasks/listByUser/'' (Path req) then listTasksByUser env req w
      else (HttpError ''404 page not found'' 404, w))"

text \<open>The keys the \<open>switch\<close> in \<open>updateTask\<close> has a case for.\<close>

definition recognized :: "string set" where
  "recognized = {''title'', ''description'', ''assigned_to'', ''status'', ''hours'',
                 ''start_date'', ''end_date'', ''parent_task''}"

section \<open>A concrete environment for running the handlers\<close>

text \<open>
  A decoder for the runs below: it reads every field of \<open>Task\<close> from its key when the
  value there has the field's type, takes the zero value for an absent \<open>invoice_id\<close> or
  \<open>parent_task\<close>, and fails otherwise. On the documents \<open>marshalTask\<close> writes it returns
  the task written.
\<close>

definition asOid :: "'f val option \<Rightarrow> ObjectID option" where
  "asOid v = (case v of Some (VOid x) \<Rightarrow> Some x | _ \<Rightarrow> None)"

definition asStr :: "'f val option \<Rightarrow> string option" where
  "asStr v = (case v of Some (VStr x) \<Rightarrow> Some x | _ \<Rightarrow> None)"

definition asNum :: "'f val option \<Rightarrow> 'f option" where
  "asNum v = (case v of Some (VNum x) \<Rightarrow> Some x | _ \<Rightarrow> None)"

definition asTime :: "'f val option \<Rightarrow> int option" where
  "asTime v = (case v of Some (VTime x) \<Rightarrow> Some x | _ \<Rightarrow> None)"

definition decodeStrict :: "'f doc \<Rightarrow> 'f Task option" where
  "decodeStrict d =
     Option.bind (asOid (d ''_id'')) (\<lambda>i.
     Option.bind (asStr (d ''title'')) (\<lambda>ti.
     Option.bind (asStr (d ''description'')) (\<lambda>de.
     Option.bind (asOid (d ''assigned_to'')) (\<lambda>a.
     Option.bind (asStr (d ''status'')) (\<lambda>s.
     Option.bind (asNum (d ''hours'')) (\<lambda>h.
     Option.bind (asTime (d ''start_date'')) (\<lambda>st.
     Option.bind (asTime (d ''end_date'')) (\<lambda>en.
     Option.bind (case d ''invoice_id'' of None \<Rightarrow> Some NilObjectID
                  | Some v \<Rightarrow> asOid (Some v)) (\<lambda>inv.
     Option.bind (case d ''parent_task'' of None \<Rightarrow> Some None
                  | Some v \<Rightarrow> map_option Some (asOid (Some v))) (\<lambda>p.
     Some \<lparr>ID = i, Title = ti, Description = de, AssignedTo = a, Status = s, Hours = h,
           StartDate = st, EndDate = en, InvoiceID = inv, ParentTask = p\<rparr>))))))))))"

text \<open>
  A task of eight hours for worker 7, open, scheduled over \<open>[0, 10)\<close>; a store that holds
  it; an environment in which every collaborator works, the gateway forwards, and the
  user service knows every caller as a plain user.
\<close>

definition sampleTask :: "real Task" where
  "sampleTask = \<lparr>ID = 1, Title = ''report'', Description = ''write it'', AssignedTo = 7,
     Status = ''open'', Hours = 8, StartDate = 0, EndDate = 10, InvoiceID = NilObjectID,
     ParentTask = None\<rparr>"

definition sampleWorld :: "real world" where
  "sampleWorld = \<lparr>tasks = [marshalTask sampleTask], billings = [], calls = []\<rparr>"

definition sampleEnv :: "real env" where
  "sampleEnv = \<lparr>parseRFC3339 = (\<lambda>s. if s = ''2024-01-01T00:00:00Z'' then Some 1704067200000 else None),
     decodeTask = decodeStrict, marshalOK = (\<lambda>b. True), newObjectID = 42,
     storeErr = (\<lambda>operation. False), gateway = Forward, billingStoreErr = False,
     userService = (\<lambda>u. UserReply 200 (Some ''user''))\<rparr>"

text \<open>A PUT on the sample task with the patch given.\<close>

definition putSample :: "(string \<times> real val) list \<Rightarrow> real request" where
  "putSample updates = \<lparr>Method = ''PUT'', Path = ''/tasks/update/000000000000000000000001'',
     headerUserID = ''u1'', queryUserID = [], bodyTask = None, bodyMap = Some updates\<rparr>"

text \<open>A creation request for the task given.\<close>

definition postTask :: "real Task \<Rightarrow> real request" where
  "postTask t = \<lparr>Method = ''POST'', Path = ''/tasks/create'',
     headerUserID = ''u1'', queryUserID = [], bodyTask = Some t, bodyMap = None\<rparr>"

text \<open>A world whose task collection holds the tasks given, as \<open>createTask\<close> stores them.\<close>

definition worldOf :: "real Task list \<Rightarrow> real world" where
  "worldOf ts = \<lparr>tasks = map marshalTask ts, billings = [], calls = []\<rparr>"

text \<open>The sample task once it is done and carries the invoice 5.\<close>

definition doneTask :: "real Task" where
  "doneTask = sampleTask\<lparr>Status := ''done'', InvoiceID := 5\<rparr>"

text \<open>A DELETE on the path given, from the caller \<open>u1\<close>.\<close>

definition deleteRequest :: "string \<Rightarrow> real request" where
  "deleteRequest p = \<lparr>Method = ''DELETE'', Path = p, headerUserID = ''u1'', queryUserID = [],
     bodyTask = None, bodyMap = None\<rparr>"

text \<open>A GET on the path given, from the caller \<open>u1\<close>.\<close>

definition getRequest :: "string \<Rightarrow> real request" where
  "getRequest p = \<lparr>Method = ''GET'', Path = p, headerUserID = ''u1'', queryUserID = [],
     bodyTask = None, bodyMap = None\<rparr>"

text \<open>A second task for the worker of the sample task, over \<open>[5, 15)\<close>.\<close>

definition secondTask :: "real Task" where
  "secondTask = sampleTask\<lparr>Description := ''second'', StartDate := 5, EndDate := 15\<rparr>"

text \<open>The sample world after a PUT that sets the sample task's \<open>hours\<close> to a text.\<close>

definition patchedWorld :: "real world" where
  "patchedWorld = snd (updateTask sampleEnv (putSample [(''hours'', VStr ''a lot'')]) sampleWorld)"

section \<open>Facts about the model\<close>

lemma decodeStrict_marshalTask: "decodeStrict (marshalTask t) = Some t"
  by (cases "ParentTask t")
     (simp_all add: decodeStrict_def marshalTask_def asOid_def asStr_def asNum_def asTime_def map_add_def)

lemma sample_id: "ObjectIDFromHex (drop (length ''/tasks/update/'') (Path (putSample ups))) = Some 1"
  by (simp add: putSample_def ObjectIDFromHex_def hexDigit_def)

lemma sample_findOne:
  "decodeTask env = decodeStrict \<Longrightarrow> \<not> storeErr env ''FindOne'' \<Longrightarrow>
   findOne env 1 sampleWorld = Some sampleTask"
  by (simp add: findOne_def sampleWorld_def hasID_def decodeStrict_marshalTask)
     (simp add: marshalTask_def sampleTask_def)

lemma posts_append: "posts (xs @ ys) = posts xs @ posts ys"
  by (induction xs rule: posts.induct) simp_all

lemma createInvoice_tasks:
  "tasks (snd (createInvoiceInBillingService env t w)) = tasks w"
  by (simp add: createInvoiceInBillingService_def postBilling_def createBilling_def called_def
        Let_def split: link.splits option.splits)

lemma createInvoice_forward:
  assumes "marshalOK env \<lparr>BillingID = NilObjectID, UserID = AssignedTo t, TaskID = ID t,
             BillingHours = Hours t, Amount = Hours t * hourlyRate\<rparr>"
    and "gateway env = Forward" and "\<not> billingStoreErr env"
  shows "createInvoiceInBillingService env t w =
           (Inr (newObjectID env),
            w\<lparr>calls := calls w @ [BillingPost \<lparr>BillingID = NilObjectID, UserID = AssignedTo t,
                 TaskID = ID t, BillingHours = Hours t, Amount = Hours t * hourlyRate\<rparr>],
              billings := billings w @ [\<lparr>BillingID = newObjectID env, UserID = AssignedTo t,
                 TaskID = ID t, BillingHours = Hours t, Amount = Hours t * hourlyRate\<rparr>]\<rparr>)"
  using assms
  by (simp add: createInvoiceInBillingService_def postBilling_def createBilling_def called_def Let_def)

section \<open>The update: status transition and invoice issuance\<close>

text \<open>
  C1. When a patch moves a task from a status other than \<open>done\<close> to \<open>done\<close> and invoice
  issuance returns an error (the connection fails, the reply's status is not 200, the
  reply's body does not decode, or the record cannot be marshalled), the update replies
  with the server error 500 and the task collection is what it was: no field of any
  stored task has changed.
\<close>

theorem invoice_failure_aborts_update:
  assumes "Method req = ''PUT''"
    and "ObjectIDFromHex (drop (length ''/tasks/update/'') (Path req)) = Some objectID"
    and "bodyMap req = Some updates"
    and "updateDoc env updates Map.empty = Inr setDoc"
    and "findOne env objectID w = Some currentTask"
    and "Status currentTask \<noteq> ''done''"
    and "map_of updates ''status'' = Some (VStr ''done'')"
    and "fst (createInvoiceInBillingService env currentTask (called (TaskStore ''FindOne'') w)) = Inl err"
  shows "fst (updateTask env req w) = HttpError ''Failed to create invoice'' 500
         \<and> tasks (snd (updateTask env req w)) = tasks w"
proof -
  obtain r w' where r: "createInvoiceInBillingService env currentTask (called (TaskStore ''FindOne'') w) = (r, w')"
    by (cases "createInvoiceInBillingService env currentTask (called (TaskStore ''FindOne'') w)")
  with assms(8) have "r = Inl err" by simp
  moreover have "tasks w' = tasks w"
    using createInvoice_tasks [of env currentTask "called (TaskStore ''FindOne'') w"] r
    by (simp add: called_def)
  ultimately show ?thesis
    using assms(1-7) r by (simp add: updateTask_def)
qed


lemma sample_updateDoc:
  "updateDoc sampleEnv [(''status'', VStr ''done''), (''hours'', VNum 99)] Map.empty
     = Inr [''status'' \<mapsto> VStr ''done'', ''hours'' \<mapsto> VNum 99]"
  by (simp add: updateField_def)

text \<open>
  The three failures the claim names, on the sample task: a dead connection, a reply with
  status 503, and a reply with status 200 whose body does not decode.
\<close>

theorem invoice_failure_aborts_update_witness:
  "fst (updateTask (sampleEnv\<lparr>gateway := Down\<rparr>)
          (putSample [(''status'', VStr ''done''), (''hours'', VNum 99)]) sampleWorld)
     = HttpError ''Failed to create invoice'' 500
   \<and> tasks (snd (updateTask (sampleEnv\<lparr>gateway := Down\<rparr>)
          (putSample [(''status'', VStr ''done''), (''hours'', VNum 99)]) sampleWorld))
     = [marshalTask sampleTask]
   \<and> fst (updateTask (sampleEnv\<lparr>gateway := Answer 503 None\<rparr>)
          (putSample [(''status'', VStr ''done''), (''hours'', VNum 99)]) sampleWorld)
     = HttpError ''Failed to create invoice'' 500
   \<and> tasks (snd (updateTask (sampleEnv\<lparr>gateway := Answer 503 None\<rparr>)
          (putSample [(''status'', VStr ''done''), (''hours'', VNum 99)]) sampleWorld))
     = [marshalTask sampleTask]
   \<and> fst (updateTask (sampleEnv\<lparr>gateway := Answer 200 None\<rparr>)
          (putSample [(''status'', VStr ''done''), (''hours'', VNum 99)]) sampleWorld)
     = HttpError ''Failed to create invoice'' 500
   \<and> tasks (snd (updateTask (sampleEnv\<lparr>gateway := Answer 200 None\<rparr>)
          (putSample [(''status'', VStr ''done''), (''hours'', VNum 99)]) sampleWorld))
     = [marshalTask sampleTask]"
proof -
  let ?ups = "[(''status'', VStr ''done''), (''hours'', VNum (99::real))]"
  have run: "fst (updateTask (sampleEnv\<lparr>gateway := g\<rparr>) (putSample ?ups) sampleWorld)
               = HttpError ''Failed to create invoice'' 500
             \<and> tasks (snd (updateTask (sampleEnv\<lparr>gateway := g\<rparr>) (putSample ?ups) sampleWorld))
               = tasks sampleWorld"
    if g: "g = Down \<or> g = Answer 503 None \<or> g = Answer 200 None" for g
  proof (rule invoice_failure_aborts_update)
    show "Method (putSample ?ups) = ''PUT''" by (simp add: putSample_def)
    show "ObjectIDFromHex (drop (length ''/tasks/update/'') (Path (putSample ?ups))) = Some 1"
      by (rule sample_id)
    show "bodyMap (putSample ?ups) = Some ?ups" by (simp add: putSample_def)
    show "updateDoc (sampleEnv\<lparr>gateway := g\<rparr>) ?ups Map.empty
            = Inr [''status'' \<mapsto> VStr ''done'', ''hours'' \<mapsto> VNum 99]"
      by (simp add: updateField_def)
    show "findOne (sampleEnv\<lparr>gateway := g\<rparr>) 1 sampleWorld = Some sampleTask"
      by (rule sample_findOne) (simp_all add: sampleEnv_def)
    show "Status sampleTask \<noteq> ''done''" by (simp add: sampleTask_def)
    show "map_of ?ups ''status'' = Some (VStr ''done'')" by simp
    show "fst (createInvoiceInBillingService (sampleEnv\<lparr>gateway := g\<rparr>) sampleTask
                 (called (TaskStore ''FindOne'') sampleWorld))
            = Inl (if g = Down then SendFailed else if g = Answer 503 None then BadStatus 503
                   else DecodeFailed)"
      using g
      by (auto simp: createInvoiceInBillingService_def postBilling_def sampleEnv_def Let_def)
  qed
  show ?thesis
    using run [of Down] run [of "Answer 503 None"] run [of "Answer 200 None"]
    by (simp add: sampleWorld_def)
qed

lemma updateField_id:
  "updateField env kv d = Inr d' \<Longrightarrow> d' ''_id'' = d ''_id''"
  by (auto simp: updateField_def split: if_splits val.splits option.splits)

lemma updateDoc_id:
  "updateDoc env ups d = Inr d' \<Longrightarrow> d' ''_id'' = d ''_id''"
proof (induction ups arbitrary: d)
  case Nil
  then show ?case by simp
next
  case (Cons kv ups)
  then show ?case
    by (auto split: sum.splits dest: updateField_id)
qed

lemma updateField_invoice:
  "updateField env kv d = Inr d' \<Longrightarrow> d' ''invoice_id'' = d ''invoice_id''"
  by (auto simp: updateField_def split: if_splits val.splits option.splits)

lemma updateDoc_invoice:
  "updateDoc env ups d = Inr d' \<Longrightarrow> d' ''invoice_id'' = d ''invoice_id''"
proof (induction ups arbitrary: d)
  case Nil
  then show ?case by simp
next
  case (Cons kv ups)
  then show ?case
    by (auto split: sum.splits dest: updateField_invoice)
qed

lemma find_setFirst:
  "s ''_id'' = None \<Longrightarrow> find (hasID oid) (setFirst oid s ds) = map_option (\<lambda>d. d ++ s) (find (hasID oid) ds)"
  by (induction ds) (auto simp: hasID_def map_add_def)

lemma findOne_found:
  "findOne env oid w = Some t \<Longrightarrow> \<exists>d. find (hasID oid) (tasks w) = Some d \<and> decodeTask env d = Some t"
  by (auto simp: findOne_def split: if_splits option.splits)

text \<open>
  C2. A patch that sets the status to \<open>done\<close> on a task whose stored status is not
  \<open>done\<close> posts exactly one billing record. The record carries the task's assignee, the
  task's identifier and the hours of the stored task (whatever \<open>hours\<close> the patch itself
  holds), and the amount is those hours times \<open>hourlyRate\<close>. When the gateway forwards the
  request and the stores work, the billing service creates exactly that one record under
  a new identifier, and the same \<open>UpdateOne\<close> that writes the patch's fields writes that
  identifier as the task's \<open>invoice_id\<close>.
\<close>

theorem done_transition_issues_one_invoice:
  assumes "Method req = ''PUT''"
    and "ObjectIDFromHex (drop (length ''/tasks/update/'') (Path req)) = Some objectID"
    and "bodyMap req = Some updates"
    and "updateDoc env updates Map.empty = Inr setDoc"
    and "findOne env objectID w = Some currentTask"
    and "Status currentTask \<noteq> ''done''"
    and "map_of updates ''status'' = Some (VStr ''done'')"
    and "marshalOK env \<lparr>BillingID = NilObjectID, UserID = AssignedTo currentTask,
           TaskID = ID currentTask, BillingHours = Hours currentTask,
           Amount = Hours currentTask * hourlyRate\<rparr>"
    and "gateway env = Forward"
    and "\<not> billingStoreErr env"
    and "\<not> storeErr env ''UpdateOne''"
  shows "fst (updateTask env req w) = NoContent
         \<and> posts (calls (snd (updateTask env req w)))
             = posts (calls w) @ [\<lparr>BillingID = NilObjectID, UserID = AssignedTo currentTask,
                 TaskID = ID currentTask, BillingHours = Hours currentTask,
                 Amount = Hours currentTask * hourlyRate\<rparr>]
         \<and> billings (snd (updateTask env req w))
             = billings w @ [\<lparr>BillingID = newObjectID env, UserID = AssignedTo currentTask,
                 TaskID = ID currentTask, BillingHours = Hours currentTask,
                 Amount = Hours currentTask * hourlyRate\<rparr>]
         \<and> tasks (snd (updateTask env req w))
             = setFirst objectID (setDoc(''invoice_id'' \<mapsto> VOid (newObjectID env))) (tasks w)
         \<and> map_option (\<lambda>d. d ''invoice_id'') (find (hasID objectID) (tasks (snd (updateTask env req w))))
             = Some (Some (VOid (newObjectID env)))"
proof -
  let ?b = "\<lparr>BillingID = NilObjectID, UserID = AssignedTo currentTask,
             TaskID = ID currentTask, BillingHours = Hours currentTask,
             Amount = Hours currentTask * hourlyRate\<rparr>"
  let ?s = "setDoc(''invoice_id'' \<mapsto> VOid (newObjectID env))"
  have inv: "createInvoiceInBillingService env currentTask (called (TaskStore ''FindOne'') w)
          = (Inr (newObjectID env),
             (called (TaskStore ''FindOne'') w)\<lparr>calls := calls (called (TaskStore ''FindOne'') w) @ [BillingPost ?b],
               billings := billings (called (TaskStore ''FindOne'') w) @ [?b\<lparr>BillingID := newObjectID env\<rparr>]\<rparr>)"
    using createInvoice_forward [OF assms(8) assms(9) assms(10)] by simp
  have run: "updateTask env req w
          = (NoContent,
             w\<lparr>calls := calls w @ [TaskStore ''FindOne'', BillingPost ?b, TaskStore ''UpdateOne''],
               billings := billings w @ [?b\<lparr>BillingID := newObjectID env\<rparr>],
               tasks := setFirst objectID ?s (tasks w)\<rparr>)"
    using assms(1-7) assms(11) inv by (simp add: updateTask_def updateOne_def called_def)
  have "setDoc ''_id'' = None"
    using updateDoc_id [OF assms(4)] by simp
  then have sid: "?s ''_id'' = None" by simp
  obtain d where d: "find (hasID objectID) (tasks w) = Some d"
    using findOne_found [OF assms(5)] by blast
  have "find (hasID objectID) (setFirst objectID ?s (tasks w)) = Some (d ++ ?s)"
    using find_setFirst [of ?s objectID "tasks w"] sid d by simp
  then show ?thesis
    using run by (simp add: posts_append)
qed


text \<open>
  On the sample task (8 hours), with a patch that also sets \<open>hours\<close> to 99: the record
  billed is for 8 hours and amounts to 800, and the task ends with the invoice 42.
\<close>

theorem done_transition_issues_one_invoice_witness:
  "fst (updateTask sampleEnv (putSample [(''status'', VStr ''done''), (''hours'', VNum 99)]) sampleWorld)
     = NoContent
   \<and> Hours sampleTask = 8
   \<and> posts (calls (snd (updateTask sampleEnv
          (putSample [(''status'', VStr ''done''), (''hours'', VNum 99)]) sampleWorld)))
     = [\<lparr>BillingID = 0, UserID = 7, TaskID = 1, BillingHours = 8, Amount = 800\<rparr>]
   \<and> billings (snd (updateTask sampleEnv
          (putSample [(''status'', VStr ''done''), (''hours'', VNum 99)]) sampleWorld))
     = [\<lparr>BillingID = 42, UserID = 7, TaskID = 1, BillingHours = 8, Amount = 800\<rparr>]
   \<and> map_option (\<lambda>d. (d ''invoice_id'', d ''status'', d ''hours''))
        (find (hasID 1) (tasks (snd (updateTask sampleEnv
          (putSample [(''status'', VStr ''done''), (''hours'', VNum 99)]) sampleWorld))))
     = Some (Some (VOid 42), Some (VStr ''done''), Some (VNum 99))"
proof -
  let ?ups = "[(''status'', VStr ''done''), (''hours'', VNum (99::real))]"
  have h1: "Method (putSample ?ups) = ''PUT''" by (simp add: putSample_def)
  have h2: "ObjectIDFromHex (drop (length ''/tasks/update/'') (Path (putSample ?ups))) = Some 1"
    by (rule sample_id)
  have h3: "bodyMap (putSample ?ups) = Some ?ups" by (simp add: putSample_def)
  have h4: "updateDoc sampleEnv ?ups Map.empty = Inr [''status'' \<mapsto> VStr ''done'', ''hours'' \<mapsto> VNum 99]"
    by (rule sample_updateDoc)
  have h5: "findOne sampleEnv 1 sampleWorld = Some sampleTask"
    by (rule sample_findOne) (simp_all add: sampleEnv_def)
  have h6: "Status sampleTask \<noteq> ''done''" by (simp add: sampleTask_def)
  have h7: "map_of ?ups ''status'' = Some (VStr ''done'')" by simp
  have h8: "marshalOK sampleEnv \<lparr>BillingID = NilObjectID, UserID = AssignedTo sampleTask,
           TaskID = ID sampleTask, BillingHours = Hours sampleTask,
           Amount = Hours sampleTask * hourlyRate\<rparr>" by (simp add: sampleEnv_def)
  have h9: "gateway sampleEnv = Forward" by (simp add: sampleEnv_def)
  have h10: "\<not> billingStoreErr sampleEnv" by (simp add: sampleEnv_def)
  have h11: "\<not> storeErr sampleEnv ''UpdateOne''" by (simp add: sampleEnv_def)
  note th = done_transition_issues_one_invoice [OF h1 h2 h3 h4 h5 h6 h7 h8 h9 h10 h11]
  have n: "newObjectID sampleEnv = 42" by (simp add: sampleEnv_def)
  have t: "tasks sampleWorld = [marshalTask sampleTask]" "billings sampleWorld = []"
    "calls sampleWorld = []" by (simp_all add: sampleWorld_def)
  have st: "setFirst 1 ([''status'' \<mapsto> VStr ''done'', ''hours'' \<mapsto> VNum 99, ''invoice_id'' \<mapsto> VOid 42])
              [marshalTask sampleTask]
            = [marshalTask sampleTask ++ [''status'' \<mapsto> VStr ''done'', ''hours'' \<mapsto> VNum 99, ''invoice_id'' \<mapsto> VOid 42]]"
    by (simp add: hasID_def marshalTask_def sampleTask_def)
  show ?thesis
    using th unfolding n t st
    by (simp add: hasID_def sampleTask_def hourlyRate_def NilObjectID_def marshalTask_def)
qed

lemma createInvoice_posts:
  "posts (calls (snd (createInvoiceInBillingService env t w))) = posts (calls w)
   \<or> posts (calls (snd (createInvoiceInBillingService env t w)))
       = posts (calls w) @ [\<lparr>BillingID = NilObjectID, UserID = AssignedTo t, TaskID = ID t,
             BillingHours = Hours t, Amount = Hours t * hourlyRate\<rparr>]"
  by (simp add: createInvoiceInBillingService_def postBilling_def createBilling_def called_def
        Let_def posts_append split: link.splits option.splits)

lemma updateOne_posts: "posts (calls (snd (updateOne env oid s w))) = posts (calls w)"
  by (simp add: updateOne_def called_def posts_append)

lemma updateOne_billings: "billings (snd (updateOne env oid s w)) = billings w"
  by (simp add: updateOne_def called_def)

lemma posts_called_store: "posts (calls (called (TaskStore x) w)) = posts (calls w)"
  by (simp add: called_def posts_append)

lemma updateTask_posts_at_most_one:
  "length (posts (calls (snd (updateTask env req w)))) \<le> Suc (length (posts (calls w)))"
proof -
  have inv: "length (posts (calls w')) \<le> Suc (length (posts (calls w)))"
    if "createInvoiceInBillingService env t (called (TaskStore ''FindOne'') w) = (r, w')"
    for t r w'
    using createInvoice_posts [of env t "called (TaskStore ''FindOne'') w"] that
    by (auto simp: posts_called_store)
  show ?thesis
    by (auto simp: updateTask_def updateOne_posts posts_called_store
             split: option.splits sum.splits prod.splits dest: inv)
qed

text \<open>
  C3. A patch that sets the status to \<open>done\<close> on a task whose stored status is already
  \<open>done\<close> posts no billing record and creates none: the update is the plain write of the
  patch's fields, with no \<open>invoice_id\<close> among them. And no call of \<open>updateTask\<close>, whatever
  the request and the world, posts more than one billing record.
\<close>

theorem done_to_done_is_plain_write:
  assumes "Method req = ''PUT''"
    and "ObjectIDFromHex (drop (length ''/tasks/update/'') (Path req)) = Some objectID"
    and "bodyMap req = Some updates"
    and "updateDoc env updates Map.empty = Inr setDoc"
    and "findOne env objectID w = Some currentTask"
    and "Status currentTask = ''done''"
  shows "posts (calls (snd (updateTask env req w))) = posts (calls w)
         \<and> billings (snd (updateTask env req w)) = billings w
         \<and> setDoc ''invoice_id'' = None
         \<and> tasks (snd (updateTask env req w))
             = (if storeErr env ''UpdateOne'' then tasks w else setFirst objectID setDoc (tasks w))
         \<and> fst (updateTask env req w)
             = (if storeErr env ''UpdateOne'' then HttpError ''Failed to update task'' 500
                else NoContent)
         \<and> (\<forall>req' w'. length (posts (calls (snd (updateTask env req' w'))))
                         \<le> Suc (length (posts (calls w'))))"
proof -
  have run: "updateTask env req w = updateOne env objectID setDoc (called (TaskStore ''FindOne'') w)"
    using assms by (simp add: updateTask_def)
  have "setDoc ''invoice_id'' = None"
    using updateDoc_invoice [OF assms(4)] by simp
  then show ?thesis
    unfolding run
    by (simp add: updateOne_def called_def posts_append updateTask_posts_at_most_one)
qed


lemma marshalTask_fields:
  "marshalTask t ''_id'' = Some (VOid (ID t))"
  "marshalTask t ''assigned_to'' = Some (VOid (AssignedTo t))"
  "marshalTask t ''start_date'' = Some (VTime (StartDate t))"
  "marshalTask t ''end_date'' = Some (VTime (EndDate t))"
  by (cases "ParentTask t"; simp add: marshalTask_def map_add_def)+

lemma findOne_worldOf:
  "decodeTask env = decodeStrict \<Longrightarrow> \<not> storeErr env ''FindOne'' \<Longrightarrow>
   findOne env (ID t) (worldOf [t]) = Some t"
  by (simp add: findOne_def worldOf_def hasID_def decodeStrict_marshalTask marshalTask_fields)

text \<open>The sample task, already done, patched to \<open>done\<close> again with a new title.\<close>

theorem done_to_done_is_plain_write_witness:
  "Status doneTask = ''done''
   \<and> posts (calls (snd (updateTask sampleEnv
          (putSample [(''status'', VStr ''done''), (''title'', VStr ''final report'')])
          (worldOf [doneTask])))) = []
   \<and> billings (snd (updateTask sampleEnv
          (putSample [(''status'', VStr ''done''), (''title'', VStr ''final report'')])
          (worldOf [doneTask]))) = []
   \<and> tasks (snd (updateTask sampleEnv
          (putSample [(''status'', VStr ''done''), (''title'', VStr ''final report'')])
          (worldOf [doneTask])))
       = [marshalTask doneTask ++ [''status'' \<mapsto> VStr ''done'', ''title'' \<mapsto> VStr ''final report'']]
   \<and> fst (updateTask sampleEnv
          (putSample [(''status'', VStr ''done''), (''title'', VStr ''final report'')])
          (worldOf [doneTask])) = NoContent"
proof -
  let ?ups = "[(''status'', VStr ''done''), (''title'', VStr ''final report'')] :: (string \<times> real val) list"
  have h1: "Method (putSample ?ups) = ''PUT''" by (simp add: putSample_def)
  have h2: "ObjectIDFromHex (drop (length ''/tasks/update/'') (Path (putSample ?ups))) = Some 1"
    by (rule sample_id)
  have h3: "bodyMap (putSample ?ups) = Some ?ups" by (simp add: putSample_def)
  have h4: "updateDoc sampleEnv ?ups Map.empty
              = Inr [''status'' \<mapsto> VStr ''done'', ''title'' \<mapsto> VStr ''final report'']"
    by (simp add: updateField_def)
  have "findOne sampleEnv (ID doneTask) (worldOf [doneTask]) = Some doneTask"
    by (rule findOne_worldOf) (simp_all add: sampleEnv_def)
  then have h5: "findOne sampleEnv 1 (worldOf [doneTask]) = Some doneTask"
    by (simp add: doneTask_def sampleTask_def)
  have h6: "Status doneTask = ''done''" by (simp add: doneTask_def)
  note th = done_to_done_is_plain_write [OF h1 h2 h3 h4 h5 h6]
  have e: "\<not> storeErr sampleEnv ''UpdateOne''" by (simp add: sampleEnv_def)
  have t: "tasks (worldOf [doneTask]) = [marshalTask doneTask]" "billings (worldOf [doneTask]) = []"
    "calls (worldOf [doneTask]) = []" by (simp_all add: worldOf_def)
  have hid: "hasID 1 (marshalTask doneTask)"
    by (simp add: hasID_def marshalTask_fields doneTask_def sampleTask_def)
  show ?thesis
    using th h6 e hid unfolding t by simp
qed

section \<open>The patch: recognized keys, dates and hours\<close>

lemma updateField_unrecognized:
  "fst kv \<notin> recognized \<Longrightarrow> updateField env kv d = Inr d"
  by (simp add: updateField_def recognized_def)

lemma updateDoc_filter_recognized:
  "updateDoc env (filter (\<lambda>kv. fst kv \<in> recognized) ups) d = updateDoc env ups d"
proof (induction ups arbitrary: d)
  case Nil
  then show ?case by simp
next
  case (Cons kv ups)
  then show ?case
    by (cases "fst kv \<in> recognized") (simp_all add: updateField_unrecognized split: sum.splits)
qed

lemma map_of_filter_key:
  "P k \<Longrightarrow> map_of (filter (\<lambda>kv. P (fst kv)) xs) k = map_of xs k"
  by (induction xs) auto

lemma map_of_unrecognized:
  "\<forall>kv \<in> set ups. fst kv \<notin> recognized \<Longrightarrow> map_of ups ''status'' = None"
  by (induction ups) (auto simp: recognized_def)

lemma updateDoc_unrecognized:
  "\<forall>kv \<in> set ups. fst kv \<notin> recognized \<Longrightarrow> updateDoc env ups d = Inr d"
  by (induction ups) (simp_all add: updateField_unrecognized)

lemma setFirst_empty: "setFirst oid Map.empty ds = ds"
  by (induction ds) simp_all

text \<open>
  C10. Keys of a patch that the \<open>switch\<close> has no case for are dropped without any error:
  the handler does on the patch what it does on the patch without them. A patch with no
  recognized key (the empty patch among them) leaves the task collection as it was, posts
  no billing record, and, when the task is found and the store accepts the update, is
  answered with 204.
\<close>

theorem unrecognized_keys_are_dropped:
  assumes "bodyMap req = Some updates"
  shows "updateTask env req w
           = updateTask env (req\<lparr>bodyMap := Some (filter (\<lambda>kv. fst kv \<in> recognized) updates)\<rparr>) w
         \<and> ((\<forall>kv \<in> set updates. fst kv \<notin> recognized) \<longrightarrow>
               tasks (snd (updateTask env req w)) = tasks w
             \<and> billings (snd (updateTask env req w)) = billings w
             \<and> posts (calls (snd (updateTask env req w))) = posts (calls w)
             \<and> (Method req = ''PUT''
                  \<and> (\<exists>objectID t. ObjectIDFromHex (drop (length ''/tasks/update/'') (Path req))
                                     = Some objectID
                                   \<and> findOne env objectID w = Some t)
                  \<and> \<not> storeErr env ''UpdateOne''
                \<longrightarrow> fst (updateTask env req w) = NoContent))"
proof -
  have st: "map_of (filter (\<lambda>kv. fst kv \<in> recognized) updates) ''status'' = map_of updates ''status''"
    by (rule map_of_filter_key) (simp add: recognized_def)
  have first: "updateTask env req w
      = updateTask env (req\<lparr>bodyMap := Some (filter (\<lambda>kv. fst kv \<in> recognized) updates)\<rparr>) w"
    using assms
    by (simp add: updateTask_def updateDoc_filter_recognized st
             cong: option.case_cong sum.case_cong if_cong)
  have second: "tasks (snd (updateTask env req w)) = tasks w
             \<and> billings (snd (updateTask env req w)) = billings w
             \<and> posts (calls (snd (updateTask env req w))) = posts (calls w)
             \<and> (Method req = ''PUT''
                  \<and> (\<exists>objectID t. ObjectIDFromHex (drop (length ''/tasks/update/'') (Path req))
                                     = Some objectID
                                   \<and> findOne env objectID w = Some t)
                  \<and> \<not> storeErr env ''UpdateOne''
                \<longrightarrow> fst (updateTask env req w) = NoContent)"
    if un: "\<forall>kv \<in> set updates. fst kv \<notin> recognized"
    using assms updateDoc_unrecognized [OF un, of env Map.empty] map_of_unrecognized [OF un]
    by (auto simp: updateTask_def updateOne_def setFirst_empty posts_called_store called_def
                   posts_append
             split: option.splits)
  show ?thesis
    using first second by blast
qed

theorem unrecognized_keys_are_dropped_witness:
  "updateTask sampleEnv (putSample [(''priority'', VNum 3), (''invoice_id'', VStr ''abc'')]) sampleWorld
     = updateTask sampleEnv (putSample []) sampleWorld
   \<and> tasks (snd (updateTask sampleEnv
         (putSample [(''priority'', VNum 3), (''invoice_id'', VStr ''abc'')]) sampleWorld))
     = [marshalTask sampleTask]
   \<and> tasks (snd (updateTask sampleEnv (putSample []) sampleWorld)) = [marshalTask sampleTask]
   \<and> fst (updateTask sampleEnv
         (putSample [(''priority'', VNum 3), (''invoice_id'', VStr ''abc'')]) sampleWorld)
     = NoContent
   \<and> fst (updateTask sampleEnv (putSample []) sampleWorld) = NoContent"
proof -
  let ?ups = "[(''priority'', VNum 3), (''invoice_id'', VStr ''abc'')] :: (string \<times> real val) list"
  have b: "bodyMap (putSample ups) = Some ups" for ups by (simp add: putSample_def)
  have un: "\<forall>kv \<in> set ?ups. fst kv \<notin> recognized" by (simp add: recognized_def)
  have f: "filter (\<lambda>kv. fst kv \<in> recognized) ?ups = []" by (simp add: recognized_def)
  have r: "(putSample ups)\<lparr>bodyMap := Some ups'\<rparr> = putSample ups'" for ups ups' :: "(string \<times> real val) list"
    by (simp add: putSample_def)
  have m: "Method (putSample ups) = ''PUT''" for ups by (simp add: putSample_def)
  have fo: "findOne sampleEnv 1 sampleWorld = Some sampleTask"
    by (rule sample_findOne) (simp_all add: sampleEnv_def)
  have e: "\<not> storeErr sampleEnv ''UpdateOne''" by (simp add: sampleEnv_def)
  have t: "tasks sampleWorld = [marshalTask sampleTask]" by (simp add: sampleWorld_def)
  have pre: "Method (putSample ups) = ''PUT''
      \<and> (\<exists>objectID t. ObjectIDFromHex (drop (length ''/tasks/update/'') (Path (putSample ups)))
                         = Some objectID
                       \<and> findOne sampleEnv objectID sampleWorld = Some t)
      \<and> \<not> storeErr sampleEnv ''UpdateOne''" for ups
    using m sample_id fo e by blast
  note a = unrecognized_keys_are_dropped [OF b [of ?ups], of sampleEnv sampleWorld]
  have 1: "updateTask sampleEnv (putSample ?ups) sampleWorld
             = updateTask sampleEnv (putSample []) sampleWorld"
    using a unfolding f r by blast
  have 2: "tasks (snd (updateTask sampleEnv (putSample ?ups) sampleWorld)) = [marshalTask sampleTask]"
    using a un unfolding t by blast
  have 3: "fst (updateTask sampleEnv (putSample ?ups) sampleWorld) = NoContent"
    using a un pre [of ?ups] by blast
  show ?thesis
    using 1 2 3 by simp
qed


lemma updateField_error:
  "updateField env kv d = Inl e \<Longrightarrow>
     e = HttpError ''Invalid date format'' 400 \<or> e = HttpError ''Invalid parent task ID'' 400"
  by (auto simp: updateField_def split: if_splits val.splits option.splits)

lemma updateDoc_error:
  "updateDoc env ups d = Inl e \<Longrightarrow>
     e = HttpError ''Invalid date format'' 400 \<or> e = HttpError ''Invalid parent task ID'' 400"
proof (induction ups arbitrary: d)
  case Nil
  then show ?case by simp
next
  case (Cons kv ups)
  then show ?case
    by (auto split: sum.splits dest: updateField_error)
qed

lemma updateField_bad_date:
  "k = ''start_date'' \<or> k = ''end_date'' \<Longrightarrow> parseRFC3339 env s = None \<Longrightarrow>
   updateField env (k, VStr s) d = Inl (HttpError ''Invalid date format'' 400)"
  by (auto simp: updateField_def)

lemma updateDoc_bad_date:
  "(k, VStr s) \<in> set ups \<Longrightarrow> k = ''start_date'' \<or> k = ''end_date'' \<Longrightarrow>
   parseRFC3339 env s = None \<Longrightarrow> \<exists>e. updateDoc env ups d = Inl e"
proof (induction ups arbitrary: d)
  case Nil
  then show ?case by simp
next
  case (Cons kv ups)
  show ?case
  proof (cases "updateField env kv d")
    case (Inl e)
    then show ?thesis by simp
  next
    case (Inr d')
    with Cons.prems updateField_bad_date [of k env s d] have "(k, VStr s) \<in> set ups"
      by auto
    from Cons.IH [OF this Cons.prems(2) Cons.prems(3), of d'] Inr show ?thesis
      by simp
  qed
qed

text \<open>
  C9, as the code has it. A \<open>start_date\<close> or \<open>end_date\<close> whose value is a string that
  \<open>time.Parse\<close> rejects makes the update fail with the client error 400 (with the message
  of the first malformed entry the loop meets, a date or a parent task identifier), and
  the world is then exactly what it was: no collaborator has been called and nothing is
  stored. A value that is not a string is dropped without an error.
\<close>

theorem unparseable_date_rejected_before_any_call:
  assumes "Method req = ''PUT''"
    and "ObjectIDFromHex (drop (length ''/tasks/update/'') (Path req)) = Some objectID"
    and "bodyMap req = Some updates"
    and "(k, VStr s) \<in> set updates"
    and "k = ''start_date'' \<or> k = ''end_date''"
    and "parseRFC3339 env s = None"
  shows "(fst (updateTask env req w) = HttpError ''Invalid date format'' 400
            \<or> fst (updateTask env req w) = HttpError ''Invalid parent task ID'' 400)
         \<and> snd (updateTask env req w) = w
         \<and> (\<forall>v d. (\<forall>x. v \<noteq> VStr x) \<longrightarrow> updateField env (k, v) d = Inr d)"
proof -
  obtain e where e: "updateDoc env updates Map.empty = Inl e"
    using updateDoc_bad_date [OF assms(4) assms(5) assms(6)] by blast
  have run: "updateTask env req w = (e, w)"
    using assms(1-3) e by (simp add: updateTask_def)
  have drop: "updateField env (k, v) d = Inr d" if "\<forall>x. v \<noteq> VStr x" for v :: "'a val" and d
    using that assms(5) by (cases v) (auto simp: updateField_def)
  show ?thesis
    using run updateDoc_error [OF e] drop by auto
qed

theorem unparseable_date_rejected_before_any_call_witness:
  "parseRFC3339 sampleEnv ''tomorrow'' = None
   \<and> updateTask sampleEnv (putSample [(''title'', VStr ''t''), (''end_date'', VStr ''tomorrow'')])
        sampleWorld
     = (HttpError ''Invalid date format'' 400, sampleWorld)"
proof -
  let ?ups = "[(''title'', VStr ''t''), (''end_date'', VStr ''tomorrow'')] :: (string \<times> real val) list"
  have h1: "Method (putSample ?ups) = ''PUT''" by (simp add: putSample_def)
  have h2: "ObjectIDFromHex (drop (length ''/tasks/update/'') (Path (putSample ?ups))) = Some 1"
    by (rule sample_id)
  have h3: "bodyMap (putSample ?ups) = Some ?ups" by (simp add: putSample_def)
  have h4: "(''end_date'', VStr ''tomorrow'') \<in> set ?ups" by simp
  have h5: "''end_date'' = ''start_date'' \<or> ''end_date'' = ''end_date''" by simp
  have h6: "parseRFC3339 sampleEnv ''tomorrow'' = None" by (simp add: sampleEnv_def)
  note th = unparseable_date_rejected_before_any_call [OF h1 h2 h3 h4 h5 h6, of sampleWorld]
  have "fst (updateTask sampleEnv (putSample ?ups) sampleWorld) \<noteq> HttpError ''Invalid parent task ID'' 400"
    by (simp add: updateTask_def putSample_def ObjectIDFromHex_def hexDigit_def updateField_def
          sampleEnv_def)
  with th have "fst (updateTask sampleEnv (putSample ?ups) sampleWorld) = HttpError ''Invalid date format'' 400"
    and "snd (updateTask sampleEnv (putSample ?ups) sampleWorld) = sampleWorld"
    by blast+
  then show ?thesis
    using h6 by (simp add: prod_eq_iff)
qed

text \<open>
  The claim as the spec states it fails on a date that is not a string: the number is
  not a timestamp in the textual format, yet the update is answered with 204 and the
  entry is dropped.
\<close>

theorem non_string_date_counterexample:
  "updateTask sampleEnv (putSample [(''start_date'', VNum 20240101)]) sampleWorld
     = (NoContent,
        sampleWorld\<lparr>calls := [TaskStore ''FindOne'', TaskStore ''UpdateOne'']\<rparr>)"
proof -
  have fo: "findOne sampleEnv 1 sampleWorld = Some sampleTask"
    by (rule sample_findOne) (simp_all add: sampleEnv_def)
  have id: "ObjectIDFromHex ''000000000000000000000001'' = Some 1"
    using sample_id [of "[]"] by (simp add: putSample_def)
  have "\<not> storeErr sampleEnv ''UpdateOne''" by (simp add: sampleEnv_def)
  then show ?thesis
    using fo id
    by (simp add: updateTask_def putSample_def updateField_def updateOne_def called_def
          setFirst_empty sampleTask_def sampleWorld_def)
qed


lemma updateField_other_key:
  "updateField env kv d = Inr d' \<Longrightarrow> k \<noteq> fst kv \<Longrightarrow> d' k = d k"
  by (auto simp: updateField_def split: if_splits val.splits option.splits)

lemma updateDoc_other_key:
  "updateDoc env ups d = Inr d' \<Longrightarrow> k \<notin> fst ` set ups \<Longrightarrow> d' k = d k"
proof (induction ups arbitrary: d)
  case Nil
  then show ?case by simp
next
  case (Cons kv ups)
  from Cons.prems obtain d1 where d1: "updateField env kv d = Inr d1"
    and rest: "updateDoc env ups d1 = Inr d'"
    by (auto split: sum.splits)
  have "d' k = d1 k"
    using Cons.IH [OF rest] Cons.prems(2) by simp
  moreover have "d1 k = d k"
    using updateField_other_key [OF d1, of k] Cons.prems(2) by simp
  ultimately show ?case by simp
qed

lemma updateField_hours: "updateField env (''hours'', v) d = Inr (d(''hours'' \<mapsto> v))"
  by (simp add: updateField_def)

text \<open>
  C8, as the code has it. The loop copies the value of \<open>hours\<close> into the update document
  as it stands: whatever the value is (a negative number, a string, null), the entry is
  never rejected, and the document the loop returns holds that very value under \<open>hours\<close>.
\<close>

theorem hours_copied_without_validation:
  assumes "updateDoc env updates d = Inr setDoc"
    and "(''hours'', v) \<in> set updates"
    and "distinct (map fst updates)"
  shows "setDoc ''hours'' = Some v
         \<and> (\<forall>d'. updateField env (''hours'', v) d' = Inr (d'(''hours'' \<mapsto> v)))"
proof -
  have "setDoc ''hours'' = Some v"
    using assms
  proof (induction updates arbitrary: d)
    case Nil
    then show ?case by simp
  next
    case (Cons kv ups)
    from Cons.prems(1) obtain d1 where d1: "updateField env kv d = Inr d1"
      and rest: "updateDoc env ups d1 = Inr setDoc"
      by (auto split: sum.splits)
    show ?case
    proof (cases "kv = (''hours'', v)")
      case True
      with d1 have "d1 = d(''hours'' \<mapsto> v)"
        by (simp add: updateField_hours)
      moreover have "''hours'' \<notin> fst ` set ups"
        using Cons.prems(3) True by simp
      ultimately show ?thesis
        using updateDoc_other_key [OF rest, of "''hours''"] by simp
    next
      case False
      with Cons.prems(2) have "(''hours'', v) \<in> set ups" by simp
      moreover have "distinct (map fst ups)"
        using Cons.prems(3) by simp
      ultimately show ?thesis
        using Cons.IH [OF rest] by simp
    qed
  qed
  then show ?thesis
    by (simp add: updateField_hours)
qed

theorem hours_copied_without_validation_witness:
  "updateDoc sampleEnv [(''title'', VStr ''t''), (''hours'', VStr ''a lot'')] Map.empty
     = Inr [''title'' \<mapsto> VStr ''t'', ''hours'' \<mapsto> VStr ''a lot'']
   \<and> [''title'' \<mapsto> VStr ''t'', ''hours'' \<mapsto> VStr ''a lot''] ''hours''
       = Some (VStr ''a lot'' :: real val)"
proof -
  let ?ups = "[(''title'', VStr ''t''), (''hours'', VStr ''a lot'')] :: (string \<times> real val) list"
  have h1: "updateDoc sampleEnv ?ups Map.empty
              = Inr [''title'' \<mapsto> VStr ''t'', ''hours'' \<mapsto> VStr ''a lot'']"
    by (simp add: updateField_def)
  have h2: "(''hours'', VStr ''a lot'') \<in> set ?ups" by simp
  have h3: "distinct (map fst ?ups)" by simp
  show ?thesis
    using hours_copied_without_validation [OF h1 h2 h3] h1 by blast
qed

text \<open>
  The claim as the spec states it fails: a negative number of hours, and a text in place
  of the number, are each answered with 204 and stored as they are.
\<close>

theorem hours_not_validated_counterexample:
  "fst (updateTask sampleEnv (putSample [(''hours'', VNum (- 5))]) sampleWorld) = NoContent
   \<and> map (\<lambda>d. d ''hours'')
       (tasks (snd (updateTask sampleEnv (putSample [(''hours'', VNum (- 5))]) sampleWorld)))
     = [Some (VNum (- 5))]
   \<and> fst (updateTask sampleEnv (putSample [(''hours'', VStr ''a lot'')]) sampleWorld) = NoContent
   \<and> map (\<lambda>d. d ''hours'')
       (tasks (snd (updateTask sampleEnv (putSample [(''hours'', VStr ''a lot'')]) sampleWorld)))
     = [Some (VStr ''a lot'')]"
proof -
  have fo: "findOne sampleEnv 1 sampleWorld = Some sampleTask"
    by (rule sample_findOne) (simp_all add: sampleEnv_def)
  have id: "ObjectIDFromHex ''000000000000000000000001'' = Some 1"
    using sample_id [of "[]"] by (simp add: putSample_def)
  have e: "\<not> storeErr sampleEnv ''UpdateOne''" by (simp add: sampleEnv_def)
  have hid: "hasID 1 (marshalTask sampleTask)"
    by (simp add: hasID_def marshalTask_fields sampleTask_def)
  have run: "updateTask sampleEnv (putSample [(''hours'', v)]) sampleWorld
      = (NoContent, sampleWorld\<lparr>calls := [TaskStore ''FindOne'', TaskStore ''UpdateOne''],
           tasks := [marshalTask sampleTask ++ [''hours'' \<mapsto> v]]\<rparr>)" for v
    using fo id e hid
    by (simp add: updateTask_def putSample_def updateField_def updateOne_def called_def
          sampleTask_def sampleWorld_def)
  show ?thesis
    unfolding run by simp
qed

section \<open>Creating a task: the overlap check\<close>

lemma overlapFilter_marshalTask:
  "overlapFilter cand (marshalTask t)
     \<longleftrightarrow> AssignedTo t = AssignedTo cand \<and> StartDate t < EndDate cand \<and> StartDate cand < EndDate t"
  by (auto simp: overlapFilter_def marshalTask_fields)











text \<open>
  The advisory half of the policy: a creation request whose body decodes is answered
  with an error exactly when the store's query or insertion returns one; otherwise the
  task is stored under a new identifier and is the reply, with the warning appended to
  its description when the slice the overlap query filled is not empty.
\<close>

lemma createTask_rejects_only_on_store_error:
  assumes "bodyTask req = Some task"
  shows "((\<exists>msg code. fst (createTask env req w) = HttpError msg code)
            \<longleftrightarrow> storeErr env ''Find'' \<or> storeErr env ''InsertOne'')
         \<and> (\<not> storeErr env ''Find'' \<and> \<not> storeErr env ''InsertOne'' \<longrightarrow>
               fst (createTask env req w)
                 = JsonTask (task\<lparr>Description :=
                                (if overlappingTasks env task w \<noteq> []
                                 then Description task @ overlapWarning else Description task),
                              ID := newObjectID env\<rparr>)
             \<and> tasks (snd (createTask env req w))
                 = tasks w @ [marshalTask (task\<lparr>Description :=
                                (if overlappingTasks env task w \<noteq> []
                                 then Description task @ overlapWarning else Description task),
                              ID := newObjectID env\<rparr>)])"
  using assms by (simp add: createTask_def Let_def called_def)

lemma patchedWorld_eq:
  "patchedWorld = sampleWorld\<lparr>calls := [TaskStore ''FindOne'', TaskStore ''UpdateOne''],
                     tasks := [marshalTask sampleTask ++ [''hours'' \<mapsto> VStr ''a lot'']]\<rparr>"
proof -
  have fo: "findOne sampleEnv 1 sampleWorld = Some sampleTask"
    by (rule sample_findOne) (simp_all add: sampleEnv_def)
  have id: "ObjectIDFromHex ''000000000000000000000001'' = Some 1"
    using sample_id [of "[]"] by (simp add: putSample_def)
  have e: "\<not> storeErr sampleEnv ''UpdateOne''" by (simp add: sampleEnv_def)
  have hid: "hasID 1 (marshalTask sampleTask)"
    by (simp add: hasID_def marshalTask_fields sampleTask_def)
  show ?thesis
    using fo id e hid
    by (simp add: patchedWorld_def updateTask_def putSample_def updateField_def updateOne_def
          called_def sampleTask_def sampleWorld_def)
qed

lemma patched_fields:
  "(marshalTask sampleTask ++ [''hours'' \<mapsto> VStr ''a lot'']) ''assigned_to'' = Some (VOid 7)"
  "(marshalTask sampleTask ++ [''hours'' \<mapsto> VStr ''a lot'']) ''start_date'' = Some (VTime 0)"
  "(marshalTask sampleTask ++ [''hours'' \<mapsto> VStr ''a lot'']) ''end_date'' = Some (VTime 10)"
  "(marshalTask sampleTask ++ [''hours'' \<mapsto> VStr ''a lot'']) ''hours'' = Some (VStr ''a lot'')"
  by (simp_all add: map_add_def marshalTask_fields sampleTask_def)

lemma patched_undecodable:
  "decodeStrict (marshalTask sampleTask ++ [''hours'' \<mapsto> VStr ''a lot'']) = None"
  by (simp add: decodeStrict_def patched_fields asNum_def)

text \<open>
  C6 fails where a stored task the overlap query matches does not decode. The handler
  drops the error of \<open>cursor.All\<close>, the slice stays empty, and the candidate is stored
  without the warning. Such a store is reached through the service itself: a PUT that
  sets the sample task's \<open>hours\<close> to a text is answered with 204. The stored task still
  belongs to worker 7 and runs over \<open>[0, 10)\<close>, the query's filter matches it for a second
  task of worker 7 over \<open>[5, 15)\<close>, and the two intervals overlap; yet that second task is
  created with its description as sent. On the store before the PUT the same request
  gets the warning. The handler \<open>listTasks\<close>, which checks the error of \<open>cursor.All\<close>,
  answers 500 on the same store.
\<close>

theorem undecodable_match_suppresses_warning:
  "fst (updateTask sampleEnv (putSample [(''hours'', VStr ''a lot'')]) sampleWorld) = NoContent
   \<and> map (\<lambda>d. (d ''assigned_to'', d ''start_date'', d ''end_date'', d ''hours'')) (tasks patchedWorld)
       = [(Some (VOid 7), Some (VTime 0), Some (VTime 10), Some (VStr ''a lot''))]
   \<and> AssignedTo secondTask = 7 \<and> StartDate secondTask = 5 \<and> EndDate secondTask = 15
   \<and> max (5::int) 0 < min 15 10
   \<and> map (overlapFilter secondTask) (tasks patchedWorld) = [True]
   \<and> fst (createTask sampleEnv (postTask secondTask) patchedWorld)
       = JsonTask (sampleTask\<lparr>Description := ''second'', StartDate := 5, EndDate := 15, ID := 42\<rparr>)
   \<and> fst (createTask sampleEnv (postTask secondTask) sampleWorld)
       = JsonTask (sampleTask\<lparr>Description := ''second Warning: This task overlaps with existing task(s).'',
                     StartDate := 5, EndDate := 15, ID := 42\<rparr>)
   \<and> fst (listTasks sampleEnv (getRequest ''/tasks/list'') patchedWorld)
       = HttpError ''Failed to decode tasks'' 500"
proof -
  have 1: "fst (updateTask sampleEnv (putSample [(''hours'', VStr ''a lot'')]) sampleWorld) = NoContent"
  proof -
    have fo: "findOne sampleEnv 1 sampleWorld = Some sampleTask"
      by (rule sample_findOne) (simp_all add: sampleEnv_def)
    have id: "ObjectIDFromHex ''000000000000000000000001'' = Some 1"
      using sample_id [of "[]"] by (simp add: putSample_def)
    have e: "\<not> storeErr sampleEnv ''UpdateOne''" by (simp add: sampleEnv_def)
    show ?thesis
      using fo id e
      by (simp add: updateTask_def putSample_def updateField_def updateOne_def sampleTask_def)
  qed
  have t: "tasks patchedWorld = [marshalTask sampleTask ++ [''hours'' \<mapsto> VStr ''a lot'']]"
    by (simp add: patchedWorld_eq)
  have 2: "map (\<lambda>d. (d ''assigned_to'', d ''start_date'', d ''end_date'', d ''hours'')) (tasks patchedWorld)
       = [(Some (VOid 7), Some (VTime 0), Some (VTime 10), Some (VStr ''a lot''))]"
    unfolding t by (simp add: marshalTask_fields sampleTask_def)
  have 3: "AssignedTo secondTask = 7 \<and> StartDate secondTask = 5 \<and> EndDate secondTask = 15"
    by (simp add: secondTask_def sampleTask_def)
  have 4: "map (overlapFilter secondTask) (tasks patchedWorld) = [True]"
    unfolding t by (simp add: overlapFilter_def marshalTask_fields 3) (simp add: sampleTask_def)
  have e: "\<not> storeErr sampleEnv ''Find''" "\<not> storeErr sampleEnv ''InsertOne''"
    "newObjectID sampleEnv = 42" "decodeTask sampleEnv = decodeStrict"
    by (simp_all add: sampleEnv_def)
  have f: "overlapFilter secondTask ((marshalTask sampleTask)(''hours'' \<mapsto> VStr ''a lot''))"
    using 4 unfolding t by simp
  have u: "decodeStrict ((marshalTask sampleTask)(''hours'' \<mapsto> VStr ''a lot'')) = None"
    using patched_undecodable by simp
  have ov: "overlappingTasks sampleEnv secondTask patchedWorld = []"
    by (simp add: overlappingTasks_def e t f u)
  have 5: "fst (createTask sampleEnv (postTask secondTask) patchedWorld)
       = JsonTask (sampleTask\<lparr>Description := ''second'', StartDate := 5, EndDate := 15, ID := 42\<rparr>)"
  proof -
    have "fst (createTask sampleEnv (postTask secondTask) patchedWorld) = JsonTask (secondTask\<lparr>ID := 42\<rparr>)"
      using e(1-3) by (simp add: createTask_def postTask_def ov Let_def)
    then show ?thesis by (simp add: secondTask_def)
  qed
  have ov': "overlappingTasks sampleEnv secondTask sampleWorld = [sampleTask]"
    by (simp add: overlappingTasks_def sampleWorld_def e decodeStrict_marshalTask
          overlapFilter_marshalTask 3)
       (simp add: sampleTask_def)
  have 6: "fst (createTask sampleEnv (postTask secondTask) sampleWorld)
       = JsonTask (sampleTask\<lparr>Description := ''second Warning: This task overlaps with existing task(s).'',
                     StartDate := 5, EndDate := 15, ID := 42\<rparr>)"
  proof -
    have "fst (createTask sampleEnv (postTask secondTask) sampleWorld)
            = JsonTask (secondTask\<lparr>Description := Description secondTask @ overlapWarning, ID := 42\<rparr>)"
      using e(1-3) by (simp add: createTask_def postTask_def ov' Let_def)
    then show ?thesis by (simp add: secondTask_def overlapWarning_def sampleTask_def)
  qed
  have 7: "fst (listTasks sampleEnv (getRequest ''/tasks/list'') patchedWorld)
       = HttpError ''Failed to decode tasks'' 500"
    using e(1) by (simp add: listTasks_def t getRequest_def e u)
  show ?thesis
    using 1 2 3 4 5 6 7 by simp
qed

section \<open>Where an invoice reference comes from\<close>

lemma tasks_called: "tasks (called c w) = tasks w"
  by (simp add: called_def)

lemma setFirst_keeps_key:
  "s k = None \<Longrightarrow> map (\<lambda>d. d k) (setFirst oid s ds) = map (\<lambda>d. d k) ds"
  by (induction ds) (simp_all add: map_add_def)

text \<open>
  C5, as the code has it. On the update path the \<open>invoice_id\<close> of a stored task changes
  only when the patch sets the status to \<open>done\<close>, the stored status of the task is not
  \<open>done\<close>, and invoice issuance succeeds: a patch's own \<open>invoice_id\<close> is not a recognized
  key. A creation request stores the invoice reference its body carries, none when the
  body carries the zero identifier.
\<close>

theorem invoice_reference_origin:
  assumes "bodyMap req = Some updates"
    and "bodyTask creq = Some task"
    and "fst (createTask env creq w0) = JsonTask stored"
  shows "(map (\<lambda>d. d ''invoice_id'') (tasks (snd (updateTask env req w)))
            = map (\<lambda>d. d ''invoice_id'') (tasks w)
          \<or> (\<exists>objectID currentTask invoiceID.
                ObjectIDFromHex (drop (length ''/tasks/update/'') (Path req)) = Some objectID
              \<and> findOne env objectID w = Some currentTask
              \<and> Status currentTask \<noteq> ''done''
              \<and> map_of updates ''status'' = Some (VStr ''done'')
              \<and> fst (createInvoiceInBillingService env currentTask
                        (called (TaskStore ''FindOne'') w)) = Inr invoiceID))
         \<and> InvoiceID stored = InvoiceID task
         \<and> tasks (snd (createTask env creq w0)) = tasks w0 @ [marshalTask stored]
         \<and> marshalTask stored ''invoice_id''
             = (if InvoiceID task = NilObjectID then None else Some (VOid (InvoiceID task)))"
proof -
  have plain: "map (\<lambda>d. d ''invoice_id'') (tasks (snd (updateOne env oid setDoc w1)))
                 = map (\<lambda>d. d ''invoice_id'') (tasks w1)"
    if "updateDoc env updates Map.empty = Inr setDoc" for oid setDoc w1
  proof -
    have "setDoc ''invoice_id'' = None"
      using updateDoc_invoice [OF that] by simp
    then show ?thesis
      by (simp add: updateOne_def called_def setFirst_keeps_key)
  qed
  have failed: "tasks w' = tasks w"
    if "createInvoiceInBillingService env t (called (TaskStore ''FindOne'') w) = (r, w')"
    for t r w'
    using createInvoice_tasks [of env t "called (TaskStore ''FindOne'') w"] that
    by (simp add: called_def)
  have upd: "map (\<lambda>d. d ''invoice_id'') (tasks (snd (updateTask env req w)))
            = map (\<lambda>d. d ''invoice_id'') (tasks w)
          \<or> (\<exists>objectID currentTask invoiceID.
                ObjectIDFromHex (drop (length ''/tasks/update/'') (Path req)) = Some objectID
              \<and> findOne env objectID w = Some currentTask
              \<and> Status currentTask \<noteq> ''done''
              \<and> map_of updates ''status'' = Some (VStr ''done'')
              \<and> fst (createInvoiceInBillingService env currentTask
                        (called (TaskStore ''FindOne'') w)) = Inr invoiceID)"
    using assms(1)
    by (auto simp: updateTask_def tasks_called plain
             split: option.splits sum.splits prod.splits dest: failed)
  have cr: "InvoiceID stored = InvoiceID task
         \<and> tasks (snd (createTask env creq w0)) = tasks w0 @ [marshalTask stored]"
    using assms(2) assms(3)
    by (auto simp: createTask_def Let_def called_def split: if_splits)
  have "marshalTask stored ''invoice_id''
          = (if InvoiceID stored = NilObjectID then None else Some (VOid (InvoiceID stored)))"
    by (cases "ParentTask stored") (simp_all add: marshalTask_def map_add_def)
  with upd cr show ?thesis by simp
qed

theorem invoice_reference_origin_witness:
  "map (\<lambda>d. d ''invoice_id'')
      (tasks (snd (updateTask sampleEnv (putSample [(''invoice_id'', VStr ''000000000000000000000009'')])
                     sampleWorld)))
     = [None]
   \<and> fst (createTask sampleEnv (postTask sampleTask) (worldOf []))
       = JsonTask (sampleTask\<lparr>ID := 42\<rparr>)
   \<and> tasks (snd (createTask sampleEnv (postTask sampleTask) (worldOf [])))
       = [marshalTask (sampleTask\<lparr>ID := 42\<rparr>)]
   \<and> marshalTask (sampleTask\<lparr>ID := 42\<rparr>) ''invoice_id'' = None"
proof -
  let ?ups = "[(''invoice_id'', VStr ''000000000000000000000009'')] :: (string \<times> real val) list"
  have h1: "bodyMap (putSample ?ups) = Some ?ups" by (simp add: putSample_def)
  have h2: "bodyTask (postTask sampleTask) = Some sampleTask" by (simp add: postTask_def)
  have h3: "fst (createTask sampleEnv (postTask sampleTask) (worldOf [])) = JsonTask (sampleTask\<lparr>ID := 42\<rparr>)"
    by (simp add: createTask_def postTask_def sampleEnv_def overlappingTasks_def worldOf_def Let_def)
  note th = invoice_reference_origin [OF h1 h2 h3, of sampleWorld]
  have no: "map_of ?ups ''status'' \<noteq> Some (VStr ''done'')" by simp
  have i: "InvoiceID sampleTask = NilObjectID" by (simp add: sampleTask_def)
  have t: "tasks sampleWorld = [marshalTask sampleTask]" "tasks (worldOf []) = []"
    by (simp_all add: sampleWorld_def worldOf_def)
  have m: "marshalTask sampleTask ''invoice_id'' = None"
    by (simp add: marshalTask_def sampleTask_def map_add_def)
  show ?thesis
    using th no h3 unfolding i t by (simp add: m)
qed

text \<open>
  The claim as the spec states it fails: a creation request whose body carries the
  invoice 9 yields a stored task with that invoice reference, and no update was made.
\<close>

theorem creation_with_invoice_counterexample:
  "snd (createTask sampleEnv (postTask (sampleTask\<lparr>InvoiceID := 9\<rparr>)) (worldOf []))
     = \<lparr>tasks = [marshalTask (sampleTask\<lparr>InvoiceID := 9, ID := 42\<rparr>)], billings = [],
        calls = [TaskStore ''Find'', TaskStore ''InsertOne'']\<rparr>
   \<and> marshalTask (sampleTask\<lparr>InvoiceID := 9, ID := 42\<rparr>) ''invoice_id'' = Some (VOid 9)"
proof -
  have "snd (createTask sampleEnv (postTask (sampleTask\<lparr>InvoiceID := 9\<rparr>)) (worldOf []))
          = \<lparr>tasks = [marshalTask (sampleTask\<lparr>InvoiceID := 9, ID := 42\<rparr>)], billings = [],
             calls = [TaskStore ''Find'', TaskStore ''InsertOne'']\<rparr>"
    by (simp add: createTask_def postTask_def sampleEnv_def overlappingTasks_def worldOf_def
          Let_def called_def)
  moreover have "marshalTask (sampleTask\<lparr>InvoiceID := 9, ID := 42\<rparr>) ''invoice_id'' = Some (VOid 9)"
    by (simp add: marshalTask_def sampleTask_def NilObjectID_def map_add_def)
  ultimately show ?thesis by simp
qed


section \<open>The authorization gate\<close>

text \<open>
  The gate itself fails closed: when the user service cannot be reached, answers with
  another status than 200, sends a body that does not decode, or names another role than
  \<open>admin\<close>, the wrapped handler does not run and the stores are what they were.
\<close>

lemma adminMiddleware_fail_closed:
  assumes "userService env (if headerUserID req = [] then queryUserID req else headerUserID req) = r"
    and "r = UserDown \<or> (\<exists>code role. r = UserReply code role \<and> (code \<noteq> 200 \<or> role \<noteq> Some ''admin''))"
  shows "fst (adminMiddleware env next req w) = HttpError ''Unauthorized'' 401
         \<and> tasks (snd (adminMiddleware env next req w)) = tasks w
         \<and> billings (snd (adminMiddleware env next req w)) = billings w"
  using assms
  by (auto simp: adminMiddleware_def isAdmin_def Let_def called_def split: option.splits)

text \<open>
  C7 fails on the route \<open>/tasks/removeAllTasks\<close>, which \<open>main\<close> registers without the
  gate: a DELETE there from a caller whom the user service knows as a plain user empties
  the task collection, whatever \<open>authMiddleware\<close> is, and the user service is not even
  asked. The same caller's DELETE on \<open>/tasks/remove/\<close>, which is registered behind the
  gate, is answered with 401 and changes nothing.
\<close>

theorem remove_all_tasks_is_not_guarded:
  "fst (isAdmin sampleEnv (deleteRequest ''/tasks/removeAllTasks'') sampleWorld) = False
   \<and> (\<forall>authMiddleware.
         serve authMiddleware sampleEnv (deleteRequest ''/tasks/removeAllTasks'') sampleWorld
           = (Empty200, sampleWorld\<lparr>calls := [TaskStore ''DeleteMany''], tasks := []\<rparr>))
   \<and> tasks sampleWorld = [marshalTask sampleTask]
   \<and> serve (\<lambda>h. h) sampleEnv (deleteRequest ''/tasks/remove/000000000000000000000001'') sampleWorld
       = (HttpError ''Unauthorized'' 401, sampleWorld\<lparr>calls := [UserGet ''u1'']\<rparr>)"
  by (simp add: serve_def removeAllTasks_def deleteRequest_def sampleEnv_def sampleWorld_def
        called_def isAdmin_def adminMiddleware_def underPath_def Let_def)

end
